theory Spec2Isabelle
  imports Main "HOL-Library.Word"
begin

section \<open>The search session coordinator of \<open>src/lib/hooks/useHomePage.ts\<close>\<close>

text \<open>
  The hook \<open>useHomePage\<close> owns three pieces of React state (\<open>query\<close>,
  \<open>hasSearched\<close>, \<open>currentSortBy\<close>) and one ref (\<open>hasLoadedCache\<close>). Every handler
  and effect body is a closure over the values of one render; what it does is call state
  setters and commands of its collaborators. The embedding makes both explicit: a handler
  is a function from the values its closure captured (and from what it reads from the
  settings store, the location and the cache) to the list of calls it makes, in order.
\<close>

subsection \<open>Strings\<close>

text \<open>
  A JavaScript string is a sequence of UTF-16 code units. \<open>js\<close> writes an ASCII literal
  of the source as such a sequence.
\<close>

type_synonym jschar = "16 word"
type_synonym jsstring = "jschar list"

definition js :: "string \<Rightarrow> jsstring" where
  "js s = map (\<lambda>c. of_nat (of_char c)) s"

text \<open>
  \<open>String.prototype.trim\<close> removes, from both ends, the code units that ECMAScript calls
  WhiteSpace (TAB, VT, FF, ZWNBSP and the Unicode space separators) or LineTerminator
  (LF, CR, LS, PS).
\<close>

definition is_ws :: "jschar \<Rightarrow> bool" where
  "is_ws c \<longleftrightarrow>
     c \<in> {0x9, 0xA, 0xB, 0xC, 0xD, 0x20, 0xA0, 0x1680, 0x2028, 0x2029, 0x202F, 0x205F,
          0x3000, 0xFEFF}
     \<or> (0x2000 \<le> c \<and> c \<le> 0x200A)"

definition trim :: "jsstring \<Rightarrow> jsstring" where
  "trim s = rev (dropWhile is_ws (rev (dropWhile is_ws s)))"

text \<open>A blank or whitespace-only string: every code unit of it is white space.\<close>

definition whitespace_only :: "jsstring \<Rightarrow> bool" where
  "whitespace_only s = list_all is_ws s"

subsection \<open>Data\<close>

text \<open>Session state: the three \<open>useState\<close> cells of the hook (lines 15 to 17).\<close>

record session =
  query :: jsstring
  hasSearched :: bool
  currentSortBy :: jsstring

definition initial_session :: session where
  "initial_session = \<lparr>query = [], hasSearched = False, currentSortBy = js ''default''\<rparr>"

text \<open>
  What the hook reads of \<open>useParallelSearch\<close>: \<open>loading\<close> and \<open>results\<close> (of which only
  the length is looked at). The other three fields are passed through to the caller.
\<close>

record 'r progress =
  loading :: bool
  results :: "'r list"

text \<open>The snapshot \<open>settingsStore.getSettings()\<close> returns.\<close>

record source =
  src_id :: jsstring
  enabled :: bool

record settings =
  sortBy :: jsstring
  sources :: "source list"

text \<open>The record \<open>loadFromCache()\<close> returns, or \<open>null\<close> (\<open>None\<close>).\<close>

record ('r, 'a) cached_search =
  c_query :: jsstring
  c_results :: "'r list"
  c_availableSources :: 'a

text \<open>
  The identities of the objects that appear in dependency arrays. They come from hooks
  outside this file; React compares them with \<open>Object.is\<close>, so a token each is enough.
\<close>

record identities =
  applySorting_id :: nat
  performSearch_id :: nat
  searchParams_id :: nat
  loadFromCache_id :: nat
  loadCachedResults_id :: nat

record 'r render =
  sess :: session
  prog :: "'r progress"
  ids :: identities

text \<open>
  The calls a handler makes: the three state setters, the four commands of the executor,
  \<open>router.replace\<close>, and the entry into \<open>handleSearch\<close> itself, which is recorded so that
  a call that returns at once is still seen.
\<close>

datatype ('r, 'a) effect =
    SetQuery jsstring
  | SetHasSearched bool
  | SetCurrentSortBy jsstring
  | PerformSearch jsstring "source list" jsstring
  | ResetSearch
  | LoadCachedResults "'r list" 'a
  | ApplySorting jsstring
  | RouterReplace jsstring
  | Invoke_handleSearch jsstring

fun apply_effect :: "session \<Rightarrow> ('r, 'a) effect \<Rightarrow> session" where
  "apply_effect s (SetQuery q) = s\<lparr>query := q\<rparr>"
| "apply_effect s (SetHasSearched b) = s\<lparr>hasSearched := b\<rparr>"
| "apply_effect s (SetCurrentSortBy k) = s\<lparr>currentSortBy := k\<rparr>"
| "apply_effect s _ = s"

definition apply_effects :: "session \<Rightarrow> ('r, 'a) effect list \<Rightarrow> session" where
  "apply_effects s tr = foldl apply_effect s tr"

fun is_search :: "('r, 'a) effect \<Rightarrow> bool" where
  "is_search (PerformSearch _ _ _) = True"
| "is_search _ = False"

fun is_executor_cmd :: "('r, 'a) effect \<Rightarrow> bool" where
  "is_executor_cmd (PerformSearch _ _ _) = True"
| "is_executor_cmd ResetSearch = True"
| "is_executor_cmd (LoadCachedResults _ _) = True"
| "is_executor_cmd (ApplySorting _) = True"
| "is_executor_cmd _ = False"

fun invoked :: "('r, 'a) effect \<Rightarrow> jsstring list" where
  "invoked (Invoke_handleSearch q) = [q]"
| "invoked _ = []"

definition invocations :: "('r, 'a) effect list \<Rightarrow> jsstring list" where
  "invocations tr = concat (map invoked tr)"

subsection \<open>Handlers and effects\<close>

text \<open>The re-sort effect, lines 36 to 40.\<close>

definition resort_effect :: "session \<Rightarrow> 'r progress \<Rightarrow> ('r, 'a) effect list" where
  "resort_effect s p =
     (if hasSearched s \<and> length (results p) > 0 then [ApplySorting (currentSortBy s)] else [])"

text \<open>
  \<open>updateSettings\<close>, lines 44 to 65. A string is truthy when it is not empty. The effect
  calls it once when it runs and subscribes it to the store; all that it captures is in
  the dependency array, so a notification runs it on the values of the latest commit.
\<close>

definition updateSettings :: "session \<Rightarrow> 'r progress \<Rightarrow> settings \<Rightarrow> ('r, 'a) effect list" where
  "updateSettings s p st =
     (if sortBy st \<noteq> currentSortBy s then [SetCurrentSortBy (sortBy st)] else []) @
     (let enabledSources = filter enabled (sources st);
          hasSources = length enabledSources > 0
      in if query s \<noteq> [] \<and> hasSources \<and> (\<not> hasSearched s \<or> length (results p) = 0)
            \<and> \<not> loading p
         then [PerformSearch (query s) enabledSources (sortBy st), SetHasSearched True]
         else [])"

text \<open>\<open>handleSearch\<close>, lines 94 to 110.\<close>

definition handleSearch :: "session \<Rightarrow> settings \<Rightarrow> jsstring \<Rightarrow> ('r, 'a) effect list" where
  "handleSearch s st searchQuery =
     Invoke_handleSearch searchQuery #
     (if trim searchQuery = [] then []
      else [SetQuery searchQuery, SetHasSearched True] @
        (let enabledSources = filter enabled (sources st)
         in if length enabledSources = 0 then []
            else [PerformSearch searchQuery enabledSources (currentSortBy s)]))"

text \<open>\<open>handleReset\<close>, lines 112 to 117.\<close>

definition handleReset :: "('r, 'a) effect list" where
  "handleReset = [SetHasSearched False, SetQuery [], ResetSearch, RouterReplace (js ''/'')]"

text \<open>
  The mount-restore effect, lines 76 to 92. It takes and returns \<open>hasLoadedCache.current\<close>.
  \<open>searchParams.get('q')\<close> is \<open>null\<close> (\<open>None\<close>) or a string, and the empty string is
  falsy, as \<open>null\<close> is.
\<close>

definition mount_effect ::
  "bool \<Rightarrow> session \<Rightarrow> settings \<Rightarrow> jsstring option \<Rightarrow> ('r, 'a) cached_search option
     \<Rightarrow> bool \<times> ('r, 'a) effect list" where
  "mount_effect hasLoadedCache s st urlQuery cached =
     (if hasLoadedCache then (True, [])
      else (True,
        (case urlQuery of
           None \<Rightarrow> []
         | Some q \<Rightarrow>
             if q = [] then []
             else SetQuery q #
               (case cached of
                  None \<Rightarrow> handleSearch s st q
                | Some c \<Rightarrow>
                    if c_query c = q \<and> length (c_results c) > 0
                    then [SetHasSearched True,
                          LoadCachedResults (c_results c) (c_availableSources c)]
                    else handleSearch s st q))))"

text \<open>
  One commit. React runs the effects of a render in the order of their declaration, each
  one on mount (\<open>None\<close>: no earlier render) and afterwards when one of its dependencies
  differs from the render before.
\<close>

definition resort_deps :: "'r render \<Rightarrow> jsstring \<times> nat \<times> bool \<times> nat" where
  "resort_deps r =
     (currentSortBy (sess r), applySorting_id (ids r), hasSearched (sess r),
      length (results (prog r)))"

definition settings_deps :: "'r render \<Rightarrow> jsstring \<times> bool \<times> nat \<times> bool \<times> nat \<times> jsstring" where
  "settings_deps r =
     (query (sess r), hasSearched (sess r), length (results (prog r)), loading (prog r),
      performSearch_id (ids r), currentSortBy (sess r))"

definition mount_deps :: "'r render \<Rightarrow> nat \<times> nat \<times> nat" where
  "mount_deps r = (searchParams_id (ids r), loadFromCache_id (ids r), loadCachedResults_id (ids r))"

definition changed :: "('r render \<Rightarrow> 'd) \<Rightarrow> 'r render option \<Rightarrow> 'r render \<Rightarrow> bool" where
  "changed deps prev cur = (case prev of None \<Rightarrow> True | Some p \<Rightarrow> deps p \<noteq> deps cur)"

definition commit ::
  "'r render option \<Rightarrow> 'r render \<Rightarrow> bool \<Rightarrow> settings \<Rightarrow> jsstring option
     \<Rightarrow> ('r, 'a) cached_search option \<Rightarrow> bool \<times> ('r, 'a) effect list" where
  "commit prev cur hasLoadedCache st urlQuery cached =
     (let e1 = (if changed resort_deps prev cur then resort_effect (sess cur) (prog cur) else []);
          e2 = (if changed settings_deps prev cur then updateSettings (sess cur) (prog cur) st
                else []);
          m = (if changed mount_deps prev cur
               then mount_effect hasLoadedCache (sess cur) st urlQuery cached
               else (hasLoadedCache, []))
      in (fst m, e1 @ e2 @ snd m))"

text \<open>
  A run of the component: the commits one after the other, each with what the stores
  hold at that moment, the ref threaded through.
\<close>

fun commits ::
  "'r render option \<Rightarrow> bool
     \<Rightarrow> ('r render \<times> settings \<times> jsstring option \<times> ('r, 'a) cached_search option) list
     \<Rightarrow> bool \<times> ('r, 'a) effect list" where
  "commits prev flag [] = (flag, [])"
| "commits prev flag ((r, st, urlQuery, cached) # rest) =
     (let m = commit prev r flag st urlQuery cached;
          n = commits (Some r) (fst m) rest
      in (fst n, snd m @ snd n))"

subsection \<open>Concrete inputs\<close>

abbreviation ex_source :: source where
  "ex_source \<equiv> \<lparr>src_id = js ''s1'', enabled = True\<rparr>"

abbreviation ex_disabled :: source where
  "ex_disabled \<equiv> \<lparr>src_id = js ''s2'', enabled = False\<rparr>"

abbreviation ex_settings :: settings where
  "ex_settings \<equiv> \<lparr>sortBy = js ''date-desc'', sources = [ex_disabled, ex_source]\<rparr>"

abbreviation ex_no_sources :: settings where
  "ex_no_sources \<equiv> \<lparr>sortBy = js ''default'', sources = [ex_disabled]\<rparr>"

abbreviation ex_ids :: identities where
  "ex_ids \<equiv> \<lparr>applySorting_id = 0, performSearch_id = 0, searchParams_id = 0,
     loadFromCache_id = 0, loadCachedResults_id = 0\<rparr>"

abbreviation ex_idle :: "nat progress" where
  "ex_idle \<equiv> \<lparr>loading = False, results = []\<rparr>"

abbreviation ex_awaiting :: session where
  "ex_awaiting \<equiv> \<lparr>query = js ''cats'', hasSearched = True, currentSortBy = js ''default''\<rparr>"

abbreviation ex_mount :: "nat render" where
  "ex_mount \<equiv> \<lparr>sess = initial_session, prog = ex_idle, ids = ex_ids\<rparr>"

abbreviation ex_cache :: "(nat, jsstring list) cached_search" where
  "ex_cache \<equiv> \<lparr>c_query = js ''dogs'', c_results = [7], c_availableSources = [js ''s1'']\<rparr>"

section \<open>Basic facts\<close>

lemma trim_Nil_iff: "trim s = [] \<longleftrightarrow> whitespace_only s"
proof
  assume "trim s = []"
  then have "\<forall>x\<in>set (dropWhile is_ws s). is_ws x"
    by (simp add: trim_def)
  then have "dropWhile is_ws s = []"
    by (metis dropWhile_eq_Nil_conv dropWhile_idem)
  then show "whitespace_only s"
    by (simp add: whitespace_only_def list_all_iff)
next
  assume "whitespace_only s"
  then have "\<forall>x\<in>set s. is_ws x"
    by (simp add: whitespace_only_def list_all_iff)
  then have "dropWhile is_ws s = []"
    by (induction s) simp_all
  then show "trim s = []"
    by (simp only: trim_def dropWhile.simps rev.simps)
qed

lemma apply_effects_Nil [simp]: "apply_effects s [] = s"
  by (simp add: apply_effects_def)

lemma apply_effects_Cons [simp]:
  "apply_effects s (e # tr) = apply_effects (apply_effect s e) tr"
  by (simp add: apply_effects_def)

lemma apply_effects_append [simp]:
  "apply_effects s (a @ b) = apply_effects (apply_effects s a) b"
  by (simp add: apply_effects_def)

lemma invocations_simps [simp]:
  "invocations [] = []"
  "invocations (e # tr) = invoked e @ invocations tr"
  "invocations (a @ b) = invocations a @ invocations b"
  by (simp_all add: invocations_def)

text \<open>Only \<open>handleSearch\<close> searches or is entered from the mount effect.\<close>

lemma resort_effect_quiet:
  "filter is_search (resort_effect s p) = []" "invocations (resort_effect s p) = []"
  by (simp_all add: resort_effect_def)

lemma updateSettings_quiet: "invocations (updateSettings s p st) = []"
  by (simp add: updateSettings_def Let_def)

text \<open>In the first render the session state is the initial one, with an empty query.\<close>

lemma updateSettings_initial:
  "updateSettings initial_session p st =
     (if sortBy st \<noteq> js ''default'' then [SetCurrentSortBy (sortBy st)] else [])"
  by (simp add: updateSettings_def initial_session_def Let_def)

lemma resort_effect_initial: "resort_effect initial_session p = []"
  by (simp add: resort_effect_def initial_session_def)

text \<open>
  The guard of the mount effect: the first commit sets \<open>hasLoadedCache\<close>, it stays set,
  and once it is set no commit enters \<open>handleSearch\<close>.
\<close>

lemma mount_effect_loaded: "mount_effect True s st u c = (True, [])"
  by (simp add: mount_effect_def)

lemma commit_mount_sets_flag: "fst (commit None r flag st u c) = True"
  by (simp add: commit_def Let_def changed_def mount_effect_def)

lemma commit_loaded:
  "fst (commit prev r True st u c) = True"
  "invocations (snd (commit prev r True st u c)) = []"
  by (simp_all add: commit_def Let_def mount_effect_loaded resort_effect_quiet
      updateSettings_quiet)

lemma commits_loaded:
  "fst (commits prev True xs) = True \<and> invocations (snd (commits prev True xs)) = []"
proof (induction xs arbitrary: prev)
  case Nil
  show ?case by simp
next
  case (Cons x xs)
  obtain r st u c where x: "x = (r, st, u, c)"
    by (cases x) auto
  show ?case
    using Cons.IH [of "Some r"] by (simp add: x Let_def commit_loaded)
qed

text \<open>
  A query of white space that the mount effect has put into the session state is searched
  by the settings effect of the next commit, as soon as a source is enabled.
\<close>

lemma whitespace_query_searched_on_next_commit:
  assumes "q \<noteq> []" and "filter enabled (sources st) \<noteq> []" and "\<not> loading p"
  shows "PerformSearch q (filter enabled (sources st)) (sortBy st)
           \<in> set (updateSettings \<lparr>query = q, hasSearched = False, currentSortBy = k\<rparr> p st)"
  using assms by (simp add: updateSettings_def Let_def)

section \<open>Settings-change reconciliation\<close>

text \<open>
  C1. Whenever \<open>updateSettings\<close> runs (on a notification of the settings store, or eagerly
  when its effect runs) with a non-empty query, at least one enabled source in the
  settings just read, \<open>hasSearched\<close> false or no result, and \<open>loading\<close> false, it calls
  \<open>performSearch\<close> with the query, the enabled sources just read and the sort preference
  just read, and then sets \<open>hasSearched\<close> to true. In a commit that runs the settings
  effect after the mount, that call is the only search.
\<close>

theorem updateSettings_retries_search:
  fixes p :: "'r progress" and c :: "('r, 'a) cached_search option"
  assumes "query s \<noteq> []" and "filter enabled (sources st) \<noteq> []"
    and "\<not> hasSearched s \<or> length (results p) = 0" and "\<not> loading p"
  shows "(updateSettings s p st :: ('r, 'a) effect list) =
           (if sortBy st \<noteq> currentSortBy s then [SetCurrentSortBy (sortBy st)] else []) @
           [PerformSearch (query s) (filter enabled (sources st)) (sortBy st),
            SetHasSearched True]
         \<and> hasSearched (apply_effects s' (updateSettings s p st :: ('r, 'a) effect list))
         \<and> (changed settings_deps prev \<lparr>sess = s, prog = p, ids = i\<rparr> \<longrightarrow>
              filter is_search
                (snd (commit prev \<lparr>sess = s, prog = p, ids = i\<rparr> True st u c)) =
              [PerformSearch (query s) (filter enabled (sources st)) (sortBy st)])"
proof -
  have eq: "updateSettings s p st =
           (if sortBy st \<noteq> currentSortBy s then [SetCurrentSortBy (sortBy st)] else []) @
           [PerformSearch (query s) (filter enabled (sources st)) (sortBy st),
            SetHasSearched True :: ('r, 'b) effect]" for dummy :: 'b
    using assms by (simp add: updateSettings_def Let_def)
  have st: "hasSearched (apply_effects s' (updateSettings s p st :: ('r, 'a) effect list))"
    by (simp add: eq)
  have cm: "filter is_search (snd (commit prev \<lparr>sess = s, prog = p, ids = i\<rparr> True st u c)) =
              [PerformSearch (query s) (filter enabled (sources st)) (sortBy st)]"
    if "changed settings_deps prev \<lparr>sess = s, prog = p, ids = i\<rparr>"
    using that by (simp add: commit_def Let_def mount_effect_loaded resort_effect_quiet eq)
  from eq st cm show ?thesis by blast
qed

theorem updateSettings_retries_search_witness:
  "query ex_awaiting \<noteq> [] \<and> filter enabled (sources ex_settings) \<noteq> []
   \<and> (updateSettings ex_awaiting ex_idle ex_settings :: (nat, jsstring list) effect list) =
       [SetCurrentSortBy (js ''date-desc''),
        PerformSearch (js ''cats'') [ex_source] (js ''date-desc''), SetHasSearched True]
   \<and> filter is_search
       (snd (commit (Some ex_mount) \<lparr>sess = ex_awaiting, prog = ex_idle, ids = ex_ids\<rparr>
          True ex_settings (Some (js ''cats'')) (Some ex_cache))) =
       [PerformSearch (js ''cats'') [ex_source] (js ''date-desc'')]"
proof -
  have h1: "query ex_awaiting \<noteq> []" by (simp add: js_def)
  have h2: "filter enabled (sources ex_settings) \<noteq> []" by simp
  have h3: "\<not> hasSearched ex_awaiting \<or> length (results ex_idle) = 0" by simp
  have h4: "\<not> loading ex_idle" by simp
  have h5: "changed settings_deps (Some ex_mount)
      \<lparr>sess = ex_awaiting, prog = ex_idle, ids = ex_ids\<rparr>"
    by (simp add: changed_def settings_deps_def initial_session_def js_def)
  show ?thesis
    using h1 h2 h5 updateSettings_retries_search [OF h1 h2 h3 h4, where s' = ex_awaiting
        and prev = "Some ex_mount" and i = ex_ids and u = "Some (js ''cats'')"
        and c = "Some ex_cache"]
    by (simp add: js_def)
qed

text \<open>
  C2. \<open>updateSettings\<close> calls \<open>performSearch\<close> neither while \<open>loading\<close> is true nor on a
  settled state (\<open>hasSearched\<close> true and at least one result), however often it runs.
\<close>

theorem updateSettings_guarded:
  fixes p :: "'r progress"
  assumes "loading p \<or> (hasSearched s \<and> results p \<noteq> [])"
  shows "filter is_search (updateSettings s p st :: ('r, 'a) effect list) = []"
  using assms by (auto simp add: updateSettings_def Let_def)

theorem updateSettings_guarded_witness:
  "filter is_search (updateSettings ex_awaiting \<lparr>loading = True, results = []\<rparr> ex_settings
      :: (nat, nat) effect list) = []
   \<and> filter is_search (updateSettings ex_awaiting \<lparr>loading = False, results = [7::nat]\<rparr>
      ex_settings :: (nat, nat) effect list) = []"
proof -
  have a: "loading \<lparr>loading = True, results = ([] :: nat list)\<rparr>
      \<or> (hasSearched ex_awaiting \<and> results \<lparr>loading = True, results = ([] :: nat list)\<rparr> \<noteq> [])"
    by simp
  have b: "loading \<lparr>loading = False, results = [7::nat]\<rparr>
      \<or> (hasSearched ex_awaiting \<and> results \<lparr>loading = False, results = [7::nat]\<rparr> \<noteq> [])"
    by simp
  show ?thesis
    using updateSettings_guarded [OF a, where 'a = nat and st = ex_settings]
      updateSettings_guarded [OF b, where 'a = nat and st = ex_settings]
    by simp
qed

section \<open>Mount\<close>

text \<open>
  C3. On mount, when the location carries a query (a non-empty \<open>q\<close>; the code takes an
  empty one as absent) and the cache holds a record of that query with at least one
  result, the mount effect sets the query, sets \<open>hasSearched\<close> to true and hands the
  cached results and \<open>availableSources\<close> to \<open>loadCachedResults\<close>. In the whole first
  commit that is the only command the executor receives: \<open>performSearch\<close> is not called
  and \<open>handleSearch\<close> is not entered.
\<close>

theorem mount_restores_from_cache:
  fixes c :: "('r, 'a) cached_search"
  assumes "q \<noteq> []" and "c_query c = q" and "c_results c \<noteq> []"
  shows "mount_effect False s st (Some q) (Some c) =
           (True, [SetQuery q, SetHasSearched True,
                   LoadCachedResults (c_results c) (c_availableSources c)])
         \<and> filter is_executor_cmd
             (snd (commit None \<lparr>sess = initial_session, prog = p, ids = i\<rparr> False st
                (Some q) (Some c))) =
           [LoadCachedResults (c_results c) (c_availableSources c)]
         \<and> invocations
             (snd (commit None \<lparr>sess = initial_session, prog = p, ids = i\<rparr> False st
                (Some q) (Some c))) = []
         \<and> hasSearched (apply_effects initial_session
             (snd (commit None \<lparr>sess = initial_session, prog = p, ids = i\<rparr> False st
                (Some q) (Some c))))
         \<and> query (apply_effects initial_session
             (snd (commit None \<lparr>sess = initial_session, prog = p, ids = i\<rparr> False st
                (Some q) (Some c)))) = q"
proof -
  have m: "mount_effect False s st (Some q) (Some c) =
           (True, [SetQuery q, SetHasSearched True,
                   LoadCachedResults (c_results c) (c_availableSources c)])" for s
    using assms by (simp add: mount_effect_def)
  have cm: "snd (commit None \<lparr>sess = initial_session, prog = p, ids = i\<rparr> False st
                (Some q) (Some c)) =
     (if sortBy st \<noteq> js ''default'' then [SetCurrentSortBy (sortBy st)] else []) @
     [SetQuery q, SetHasSearched True, LoadCachedResults (c_results c) (c_availableSources c)]"
    by (simp add: commit_def Let_def changed_def m updateSettings_initial
        resort_effect_initial)
  show ?thesis
    unfolding cm by (simp add: m)
qed

theorem mount_restores_from_cache_witness:
  "snd (commit None ex_mount False ex_settings (Some (js ''dogs'')) (Some ex_cache)) =
     [SetCurrentSortBy (js ''date-desc''), SetQuery (js ''dogs''), SetHasSearched True,
      LoadCachedResults [7] [js ''s1'']]
   \<and> filter is_executor_cmd
       (snd (commit None ex_mount False ex_settings (Some (js ''dogs'')) (Some ex_cache))) =
     [LoadCachedResults [7] [js ''s1'']]"
proof -
  have h1: "js ''dogs'' \<noteq> []" by (simp add: js_def)
  have h2: "c_query ex_cache = js ''dogs''" by simp
  have h3: "c_results ex_cache \<noteq> []" by simp
  have t: "snd (commit None ex_mount False ex_settings (Some (js ''dogs'')) (Some ex_cache)) =
     [SetCurrentSortBy (js ''date-desc''), SetQuery (js ''dogs''), SetHasSearched True,
      LoadCachedResults [7] [js ''s1'']]"
    by (simp add: commit_def Let_def changed_def mount_effect_def updateSettings_def
      resort_effect_def initial_session_def js_def)
  show ?thesis
    using t mount_restores_from_cache [OF h1 h2 h3, where p = ex_idle and i = ex_ids
        and st = ex_settings and s = initial_session]
    by simp
qed

text \<open>
  C4. On mount, when the location carries a query (a non-empty \<open>q\<close>) and the cache misses
  (no record, a record of another query, or a record without results), the mount effect
  sets the query and enters \<open>handleSearch\<close> with the query of the location; over the
  first commit and any commits that follow it, \<open>handleSearch\<close> is entered exactly once
  from the effects, with that query.
\<close>

theorem mount_cache_miss_searches_once:
  fixes cached :: "('r, 'a) cached_search option"
  assumes "q \<noteq> []"
    and "cached = None \<or> (\<exists>c. cached = Some c \<and> (c_query c \<noteq> q \<or> c_results c = []))"
  shows "mount_effect False s st (Some q) cached = (True, SetQuery q # handleSearch s st q)
         \<and> invocations (snd (commits None False ((r, st, Some q, cached) # rest))) = [q]"
proof -
  have m: "mount_effect False s st (Some q) cached = (True, SetQuery q # handleSearch s st q)"
    for s
    using assms by (auto simp add: mount_effect_def)
  have h: "invocations (handleSearch s st q :: ('r, 'a) effect list) = [q]" for s
    by (simp add: handleSearch_def Let_def)
  have c1: "fst (commit None r False st (Some q) cached) = True"
    by (rule commit_mount_sets_flag)
  have c2: "invocations (snd (commit None r False st (Some q) cached)) = [q]"
    by (simp add: commit_def Let_def changed_def m h resort_effect_quiet updateSettings_quiet)
  have "invocations (snd (commits None False ((r, st, Some q, cached) # rest))) = [q]"
    using commits_loaded [of "Some r" rest] by (simp add: Let_def c1 c2)
  with m show ?thesis by simp
qed

theorem mount_cache_miss_searches_once_witness:
  "snd (mount_effect False initial_session ex_no_sources (Some (js ''cats'')) (Some ex_cache)) =
     [SetQuery (js ''cats'')] @ handleSearch initial_session ex_no_sources (js ''cats'')
   \<and> invocations (snd (commits None False
       [(ex_mount, ex_no_sources, Some (js ''cats''), Some ex_cache),
        (\<lparr>sess = ex_awaiting, prog = ex_idle, ids = ex_ids\<lparr>searchParams_id := 1\<rparr>\<rparr>,
         ex_settings, Some (js ''cats''), Some ex_cache)])) = [js ''cats'']"
proof -
  have h1: "js ''cats'' \<noteq> []" by (simp add: js_def)
  have h2: "Some ex_cache = None
      \<or> (\<exists>c. Some ex_cache = Some c \<and> (c_query c \<noteq> js ''cats'' \<or> c_results c = []))"
    by (simp add: js_def)
  show ?thesis
    using mount_cache_miss_searches_once [OF h1 h2, of initial_session ex_no_sources ex_mount
        "[(\<lparr>sess = ex_awaiting, prog = ex_idle, ids = ex_ids\<lparr>searchParams_id := 1\<rparr>\<rparr>,
           ex_settings, Some (js ''cats''), Some ex_cache)]"]
    by simp
qed

section \<open>Explicit search\<close>

text \<open>
  C5. For every input to \<open>handleSearch\<close> that is empty or made of white space only, the
  session state (\<open>query\<close>, \<open>hasSearched\<close>, \<open>currentSortBy\<close>) is unchanged and the executor
  receives no command: the call does nothing.
\<close>

theorem handleSearch_blank_ignored:
  assumes "whitespace_only q"
  shows "(handleSearch s st q :: ('r, 'a) effect list) = [Invoke_handleSearch q]
         \<and> apply_effects s' (handleSearch s st q :: ('r, 'a) effect list) = s'
         \<and> filter is_executor_cmd (handleSearch s st q :: ('r, 'a) effect list) = []"
  using assms by (simp add: handleSearch_def trim_Nil_iff)

theorem handleSearch_blank_ignored_witness:
  "whitespace_only [0x20, 0x9, 0x3000]
   \<and> apply_effects ex_awaiting
       (handleSearch ex_awaiting ex_settings [0x20, 0x9, 0x3000] :: (nat, nat) effect list) =
     ex_awaiting
   \<and> whitespace_only []
   \<and> filter is_executor_cmd
       (handleSearch ex_awaiting ex_settings [] :: (nat, nat) effect list) = []"
proof -
  have h1: "whitespace_only [0x20, 0x9, 0x3000]"
    by (simp add: whitespace_only_def is_ws_def)
  have h2: "whitespace_only []"
    by (simp add: whitespace_only_def)
  show ?thesis
    using h1 h2
      handleSearch_blank_ignored [OF h1, where 'r = nat and 'a = nat and s = ex_awaiting
        and st = ex_settings and s' = ex_awaiting]
      handleSearch_blank_ignored [OF h2, where 'r = nat and 'a = nat and s = ex_awaiting
        and st = ex_settings and s' = ex_awaiting]
    by simp
qed

text \<open>
  C6. For every input \<open>q\<close> to \<open>handleSearch\<close> that is not blank, the session state gets
  \<open>query = q\<close> and \<open>hasSearched = true\<close> (the sort preference is not touched); when the
  settings store has no enabled source the executor receives no command, otherwise it
  receives exactly \<open>performSearch\<close> with \<open>q\<close>, the enabled sources and the sort preference
  of the session state.
\<close>

theorem handleSearch_nonblank:
  assumes "\<not> whitespace_only q"
  shows "query (apply_effects s' (handleSearch s st q :: ('r, 'a) effect list)) = q
         \<and> hasSearched (apply_effects s' (handleSearch s st q :: ('r, 'a) effect list))
         \<and> currentSortBy (apply_effects s' (handleSearch s st q :: ('r, 'a) effect list)) =
             currentSortBy s'
         \<and> filter is_executor_cmd (handleSearch s st q :: ('r, 'a) effect list) =
             (if filter enabled (sources st) = [] then []
              else [PerformSearch q (filter enabled (sources st)) (currentSortBy s)])"
  using assms by (simp add: handleSearch_def trim_Nil_iff Let_def)

theorem handleSearch_nonblank_witness:
  "\<not> whitespace_only (js ''cats'')
   \<and> apply_effects initial_session
       (handleSearch initial_session ex_no_sources (js ''cats'') :: (nat, nat) effect list) =
     \<lparr>query = js ''cats'', hasSearched = True, currentSortBy = js ''default''\<rparr>
   \<and> filter is_executor_cmd
       (handleSearch initial_session ex_no_sources (js ''cats'') :: (nat, nat) effect list) = []
   \<and> filter is_executor_cmd
       (handleSearch initial_session ex_settings (js ''cats'') :: (nat, nat) effect list) =
     [PerformSearch (js ''cats'') [ex_source] (js ''default'')]"
proof -
  have h: "\<not> whitespace_only (js ''cats'')"
    by (simp add: js_def whitespace_only_def is_ws_def)
  have e: "apply_effects initial_session
       (handleSearch initial_session ex_no_sources (js ''cats'') :: (nat, nat) effect list) =
     \<lparr>query = js ''cats'', hasSearched = True, currentSortBy = js ''default''\<rparr>"
    by (simp add: handleSearch_def trim_def is_ws_def js_def initial_session_def)
  show ?thesis
    using h e
      handleSearch_nonblank [OF h, where 'r = nat and 'a = nat and s = initial_session
        and st = ex_no_sources and s' = initial_session]
      handleSearch_nonblank [OF h, where 'r = nat and 'a = nat and s = initial_session
        and st = ex_settings and s' = initial_session]
    by (simp add: initial_session_def)
qed

section \<open>Sort preference\<close>

text \<open>
  C7. In the commit of a render whose sort preference differs from that of the render
  before, with \<open>hasSearched\<close> true and at least one result, the executor receives exactly
  one command: \<open>applySorting\<close> with the new sort key. \<open>performSearch\<close> is not called.
  (\<open>hasLoadedCache\<close> is true in every commit after the first, see \<open>commit_mount_sets_flag\<close>
  and \<open>commit_loaded\<close>.)
\<close>

theorem sort_change_resorts_once:
  fixes c :: "('r, 'a) cached_search option" and cur :: "'r render"
  assumes "currentSortBy (sess prev) \<noteq> currentSortBy (sess cur)"
    and "hasSearched (sess cur)" and "results (prog cur) \<noteq> []"
  shows "filter is_executor_cmd (snd (commit (Some prev) cur True st u c)) =
           [ApplySorting (currentSortBy (sess cur))]"
  using assms
  by (simp add: commit_def Let_def changed_def resort_deps_def settings_deps_def
      mount_effect_loaded resort_effect_def updateSettings_def)

theorem sort_change_resorts_once_witness:
  "filter is_executor_cmd
     (snd (commit
        (Some \<lparr>sess = ex_awaiting, prog = \<lparr>loading = False, results = [7::nat]\<rparr>, ids = ex_ids\<rparr>)
        \<lparr>sess = ex_awaiting\<lparr>currentSortBy := js ''date-desc''\<rparr>,
          prog = \<lparr>loading = False, results = [7::nat]\<rparr>, ids = ex_ids\<rparr>
        True ex_settings (Some (js ''cats'')) (Some ex_cache))) =
   [ApplySorting (js ''date-desc'')]"
proof -
  have h1: "currentSortBy
        (sess \<lparr>sess = ex_awaiting, prog = \<lparr>loading = False, results = [7::nat]\<rparr>, ids = ex_ids\<rparr>) \<noteq>
      currentSortBy
        (sess \<lparr>sess = ex_awaiting\<lparr>currentSortBy := js ''date-desc''\<rparr>,
          prog = \<lparr>loading = False, results = [7::nat]\<rparr>, ids = ex_ids\<rparr>)"
    by (simp add: js_def)
  have h2: "hasSearched (sess \<lparr>sess = ex_awaiting\<lparr>currentSortBy := js ''date-desc''\<rparr>,
          prog = \<lparr>loading = False, results = [7::nat]\<rparr>, ids = ex_ids\<rparr>)"
    by simp
  have h3: "results (prog \<lparr>sess = ex_awaiting\<lparr>currentSortBy := js ''date-desc''\<rparr>,
          prog = \<lparr>loading = False, results = [7::nat]\<rparr>, ids = ex_ids\<rparr>) \<noteq> []"
    by simp
  show ?thesis
    using sort_change_resorts_once [OF h1 h2 h3, of ex_settings "Some (js ''cats'')"
        "Some ex_cache"]
    by simp
qed

section \<open>Reset\<close>

text \<open>
  C8. From every prior state, \<open>handleReset\<close> leaves \<open>query\<close> empty and \<open>hasSearched\<close>
  false, sends the executor \<open>resetSearch\<close> (and nothing else) and replaces the location
  by the bare one. It has no branch and no failing path: it is this one list of calls.
\<close>

theorem handleReset_resets:
  "query (apply_effects s (handleReset :: ('r, 'a) effect list)) = []
   \<and> \<not> hasSearched (apply_effects s (handleReset :: ('r, 'a) effect list))
   \<and> filter is_executor_cmd (handleReset :: ('r, 'a) effect list) = [ResetSearch]
   \<and> RouterReplace (js ''/'') \<in> set (handleReset :: ('r, 'a) effect list)"
  by (simp add: handleReset_def)

text \<open>
  C9, as amended. From every prior state, \<open>handleReset\<close> puts \<open>query\<close> and \<open>hasSearched\<close>
  back to their initial values and leaves the sort preference as it was: it does not
  call \<open>setCurrentSortBy\<close>.
\<close>

theorem handleReset_keeps_sort:
  "apply_effects s (handleReset :: ('r, 'a) effect list) =
     s\<lparr>query := query initial_session, hasSearched := hasSearched initial_session\<rparr>
   \<and> currentSortBy (apply_effects s (handleReset :: ('r, 'a) effect list)) = currentSortBy s"
  by (simp add: handleReset_def initial_session_def)

text \<open>
  C9 as stated fails: after a reset from a state whose sort preference is \<open>date-desc\<close>,
  the sort preference is not the initial \<open>default\<close>.
\<close>

theorem handleReset_sort_counterexample:
  "currentSortBy (apply_effects
      \<lparr>query = js ''cats'', hasSearched = True, currentSortBy = js ''date-desc''\<rparr>
      (handleReset :: (nat, nat) effect list)) \<noteq> currentSortBy initial_session"
  by (simp add: handleReset_def initial_session_def js_def)

section \<open>Mount with a query of white space\<close>

text \<open>
  C10, as amended. On mount, when the \<open>q\<close> of the location is made of white space only
  and the cache holds no record of that very string with at least one result, the first
  commit leaves \<open>query\<close> equal to that string and \<open>hasSearched\<close> false, and the executor
  receives no command; for a non-empty \<open>q\<close> the mount effect enters \<open>handleSearch\<close> once,
  which returns at once.
\<close>

theorem mount_whitespace_cache_miss:
  fixes cached :: "('r, 'a) cached_search option"
  assumes "whitespace_only q"
    and "\<not> (\<exists>c. cached = Some c \<and> c_query c = q \<and> c_results c \<noteq> [])"
  shows "query (apply_effects initial_session
             (snd (commit None \<lparr>sess = initial_session, prog = p, ids = i\<rparr> False st
                (Some q) cached))) = q
         \<and> \<not> hasSearched (apply_effects initial_session
             (snd (commit None \<lparr>sess = initial_session, prog = p, ids = i\<rparr> False st
                (Some q) cached)))
         \<and> filter is_executor_cmd
             (snd (commit None \<lparr>sess = initial_session, prog = p, ids = i\<rparr> False st
                (Some q) cached)) = []
         \<and> invocations
             (snd (commit None \<lparr>sess = initial_session, prog = p, ids = i\<rparr> False st
                (Some q) cached)) = (if q = [] then [] else [q])"
proof -
  have h: "handleSearch initial_session st q = [Invoke_handleSearch q :: ('r, 'a) effect]"
    using assms(1) by (simp add: handleSearch_def trim_Nil_iff)
  have m: "snd (mount_effect False initial_session st (Some q) cached) =
      (if q = [] then [] else [SetQuery q, Invoke_handleSearch q])"
    using assms(2) by (auto simp add: mount_effect_def h split: option.splits)
  have cm: "snd (commit None \<lparr>sess = initial_session, prog = p, ids = i\<rparr> False st
                (Some q) cached) =
     (if sortBy st \<noteq> js ''default'' then [SetCurrentSortBy (sortBy st)] else []) @
     (if q = [] then [] else [SetQuery q, Invoke_handleSearch q])"
    by (simp add: commit_def Let_def changed_def m updateSettings_initial
        resort_effect_initial)
  show ?thesis
    unfolding cm by (simp add: initial_session_def)
qed

theorem mount_whitespace_cache_miss_witness:
  "whitespace_only (js '' '')
   \<and> apply_effects initial_session
        (snd (commit None ex_mount False ex_settings (Some (js '' '')) (Some ex_cache)))
      = \<lparr>query = js '' '', hasSearched = False, currentSortBy = js ''date-desc''\<rparr>
   \<and> invocations
        (snd (commit None ex_mount False ex_settings (Some (js '' '')) (Some ex_cache)))
      = [js '' '']"
proof -
  have w: "whitespace_only (js '' '')"
    by (simp add: js_def whitespace_only_def is_ws_def)
  have n: "\<not> (\<exists>c. Some ex_cache = Some c \<and> c_query c = js '' '' \<and> c_results c \<noteq> [])"
    by (simp add: js_def)
  have k: "currentSortBy (apply_effects initial_session
        (snd (commit None ex_mount False ex_settings (Some (js '' '')) (Some ex_cache))))
      = js ''date-desc''"
    by (simp add: commit_def Let_def changed_def mount_effect_def updateSettings_def
      resort_effect_def initial_session_def js_def handleSearch_def trim_def is_ws_def)
  show ?thesis
    using w k mount_whitespace_cache_miss [OF w n, where p = ex_idle and i = ex_ids
        and st = ex_settings]
    by (simp add: js_def)
qed

text \<open>
  C10 as stated fails: with \<open>q\<close> a single space and a cached record of that query with
  one result, the first commit sets \<open>hasSearched\<close> to true and sends the executor
  \<open>loadCachedResults\<close>.
\<close>

theorem mount_whitespace_cache_hit_counterexample:
  "whitespace_only (js '' '')
   \<and> hasSearched (apply_effects initial_session
        (snd (commit None ex_mount False ex_settings (Some (js '' ''))
          (Some \<lparr>c_query = js '' '', c_results = [7::nat], c_availableSources = [js ''s1'']\<rparr>))))
   \<and> filter is_executor_cmd
        (snd (commit None ex_mount False ex_settings (Some (js '' ''))
          (Some \<lparr>c_query = js '' '', c_results = [7::nat], c_availableSources = [js ''s1'']\<rparr>)))
      \<noteq> []"
  by (simp add: commit_def Let_def changed_def mount_effect_def updateSettings_def
      resort_effect_def initial_session_def js_def whitespace_only_def is_ws_def)

end
